theory Spec2Isabelle
  imports Main "HOL-Library.Char_ord" "HOL-Library.List_Lexorder"
begin

section \<open>Strings\<close>

text \<open>
  A Python \<^verbatim>\<open>str\<close> is modelled as a \<^typ>\<open>string\<close>, one \<^typ>\<open>char\<close> per code
  point; the characters of HOL have eight bits, so the model covers the texts whose code
  points are below 256. On that range \<^verbatim>\<open>str.lower()\<close> works character by character
  and \<^verbatim>\<open>len\<close> is \<^const>\<open>length\<close>. The order of \<^verbatim>\<open>sorted\<close> on strings is the
  lexicographic order of the code points, which is the order of \<^typ>\<open>string\<close> here.
\<close>

text \<open>\<^verbatim>\<open>word in text\<close>: \<open>word\<close> occurs in \<open>text\<close> as a contiguous substring.\<close>

fun starts_with :: "string \<Rightarrow> string \<Rightarrow> bool" where
  "starts_with [] text = True"
| "starts_with (w # ws) [] = False"
| "starts_with (w # ws) (c # cs) = (w = c \<and> starts_with ws cs)"

fun str_in :: "string \<Rightarrow> string \<Rightarrow> bool" where
  "str_in word [] = (word = [])"
| "str_in word (c # cs) = (starts_with word (c # cs) \<or> str_in word cs)"

text \<open>\<^verbatim>\<open>str.lower()\<close> on the code points below 256: the letters A to Z and the
  capital letters of Latin-1 (192 to 222, without the multiplication sign 215) move up
  by 32; everything else stays.\<close>

definition lower_char :: "char \<Rightarrow> char" where
  "lower_char c =
     (let n = (of_char c :: nat)
      in if (65 \<le> n \<and> n \<le> 90) \<or> (192 \<le> n \<and> n \<le> 222 \<and> n \<noteq> 215)
         then char_of (n + 32) else c)"

definition lower :: "string \<Rightarrow> string" where
  "lower s = map lower_char s"

text \<open>\<^verbatim>\<open>str.strip()\<close>: the white space of Python among the code points below 256 is
  9 to 13, 28 to 32, 133 and 160; it is removed at both ends.\<close>

definition isspace :: "char \<Rightarrow> bool" where
  "isspace c =
     (let n = (of_char c :: nat)
      in (9 \<le> n \<and> n \<le> 13) \<or> (28 \<le> n \<and> n \<le> 32) \<or> n = 133 \<or> n = 160)"

definition strip :: "string \<Rightarrow> string" where
  "strip s = rev (dropWhile isspace (rev (dropWhile isspace s)))"

text \<open>\<^verbatim>\<open>s.split(sep)\<close> for a separator of one character: the pieces between the
  separators, in order; the result is never empty.\<close>

fun split :: "string \<Rightarrow> char \<Rightarrow> string list" where
  "split [] sep = [[]]"
| "split (c # cs) sep =
     (if c = sep then [] # split cs sep
      else (case split cs sep of [] \<Rightarrow> [[c]] | p # ps \<Rightarrow> (c # p) # ps))"

section \<open>Bloom level\<close>

definition determine_blooms_level :: "string \<Rightarrow> string" where
  "determine_blooms_level text =
     (if list_ex (\<lambda>verb. str_in verb text)
           [''define'', ''list'', ''name'', ''identify'', ''recall'', ''recognize'']
      then ''Remember''
      else if list_ex (\<lambda>verb. str_in verb text)
           [''understand'', ''comprehend'', ''explain'', ''describe'', ''summarize'',
            ''interpret'', ''classify'']
      then ''Understand''
      else if list_ex (\<lambda>verb. str_in verb text)
           [''apply'', ''use'', ''solve'', ''implement'', ''execute'', ''carry out'',
            ''write'', ''run'']
      then ''Apply''
      else if list_ex (\<lambda>verb. str_in verb text)
           [''analyze'', ''examine'', ''compare'', ''contrast'', ''differentiate'',
            ''organize'', ''test'', ''debug'']
      then ''Analyze''
      else if list_ex (\<lambda>verb. str_in verb text)
           [''evaluate'', ''assess'', ''judge'', ''critique'', ''justify'', ''argue'',
            ''defend'']
      then ''Evaluate''
      else if list_ex (\<lambda>verb. str_in verb text)
           [''create'', ''design'', ''develop'', ''construct'', ''build'', ''formulate'',
            ''generate'', ''plan'']
      then ''Create''
      else ''Apply'')"

section \<open>Main skill name and keywords\<close>

definition extract_main_skill :: "string \<Rightarrow> string \<Rightarrow> string" where
  "extract_main_skill outcome context =
     (let outcome = strip outcome
      in if length outcome < 60 then outcome
         else
           (let first_part = hd (split (hd (split outcome CHR '','')) CHR '';'')
            in if length first_part < 80 then first_part
               else context @ '' - '' @ take 40 outcome @ ''...''))"

definition extract_keywords :: "string \<Rightarrow> string list \<Rightarrow> string list" where
  "extract_keywords text candidates =
     foldl (\<lambda>kws keyword. if str_in keyword text then kws @ [keyword] else kws)
       [] candidates"

section \<open>Skill records\<close>

text \<open>A skill record is a dictionary; the consumers read it with \<^verbatim>\<open>dict.get\<close> and a
  default, so each key may be absent.\<close>

record skill =
  skill_name :: "string option"
  description :: "string option"
  category :: "string option"
  skill_type :: "string option"
  blooms_level :: "string option"
  keyword_list :: "string list option"
  module :: "string option"

text \<open>The field \<open>keyword_list\<close> is the key \<^verbatim>\<open>'keywords'\<close> of the source.\<close>

section \<open>Classifier\<close>

definition extract_skills_from_outcome :: "string \<Rightarrow> int \<Rightarrow> string \<Rightarrow> skill list" where
  "extract_skills_from_outcome outcome level module_code =
     (let outcome_lower = lower outcome;
          skills = [];
          blooms_level = determine_blooms_level outcome_lower;
          skills =
            (if list_ex (\<lambda>word. str_in word outcome_lower)
                  [''program'', ''code'', ''compile'', ''debug'', ''algorithm'',
                   ''data structure'', ''function'', ''method'', ''procedure'']
             then skills @
               [\<lparr>skill_name = Some (extract_main_skill outcome ''Programming''),
                 description = Some (take 100 outcome),
                 category = Some ''Technical'',
                 skill_type = Some ''Programming'',
                 blooms_level = Some blooms_level,
                 keyword_list = Some (extract_keywords outcome_lower
                   [''program'', ''code'', ''function'', ''algorithm'']),
                 module = Some module_code\<rparr>]
             else skills);
          skills =
            (if list_ex (\<lambda>word. str_in word outcome_lower)
                  [''design'', ''develop'', ''create'', ''build'', ''construct'']
             then skills @
               [\<lparr>skill_name = Some (extract_main_skill outcome ''Design & Development''),
                 description = Some (take 100 outcome),
                 category = Some ''Technical'',
                 skill_type = Some ''Software Design'',
                 blooms_level = Some blooms_level,
                 keyword_list = Some (extract_keywords outcome_lower
                   [''design'', ''develop'', ''architecture'']),
                 module = Some module_code\<rparr>]
             else skills);
          skills =
            (if list_ex (\<lambda>word. str_in word outcome_lower)
                  [''understand'', ''comprehend'', ''aware'', ''familiar'', ''describe'',
                   ''explain'']
             then skills @
               [\<lparr>skill_name = Some (extract_main_skill outcome ''Conceptual Understanding''),
                 description = Some (take 100 outcome),
                 category = Some ''Cognitive'',
                 skill_type = Some ''Comprehension'',
                 blooms_level = Some blooms_level,
                 keyword_list = Some (extract_keywords outcome_lower
                   [''understand'', ''knowledge'', ''theory'']),
                 module = Some module_code\<rparr>]
             else skills);
          skills =
            (if list_ex (\<lambda>word. str_in word outcome_lower)
                  [''test'', ''debug'', ''evaluate'', ''analyze'', ''assess'']
             then skills @
               [\<lparr>skill_name = Some (extract_main_skill outcome ''Analysis & Testing''),
                 description = Some (take 100 outcome),
                 category = Some ''Technical'',
                 skill_type = Some ''Testing & Debugging'',
                 blooms_level = Some blooms_level,
                 keyword_list = Some (extract_keywords outcome_lower
                   [''test'', ''debug'', ''analyze'']),
                 module = Some module_code\<rparr>]
             else skills);
          skills =
            (if list_ex (\<lambda>word. str_in word outcome_lower)
                  [''architecture'', ''organization'', ''system'', ''structure'']
             then skills @
               [\<lparr>skill_name = Some (extract_main_skill outcome ''Systems & Architecture''),
                 description = Some (take 100 outcome),
                 category = Some ''Domain-Specific'',
                 skill_type = Some ''Computer Architecture'',
                 blooms_level = Some blooms_level,
                 keyword_list = Some (extract_keywords outcome_lower
                   [''architecture'', ''system'', ''hardware'']),
                 module = Some module_code\<rparr>]
             else skills);
          skills =
            (if list_ex (\<lambda>word. str_in word outcome_lower)
                  [''logic'', ''proof'', ''mathematical'', ''formal'', ''automata'']
             then skills @
               [\<lparr>skill_name = Some (extract_main_skill outcome ''Theoretical Foundations''),
                 description = Some (take 100 outcome),
                 category = Some ''Domain-Specific'',
                 skill_type = Some ''Theory & Mathematics'',
                 blooms_level = Some blooms_level,
                 keyword_list = Some (extract_keywords outcome_lower
                   [''logic'', ''proof'', ''mathematical'']),
                 module = Some module_code\<rparr>]
             else skills);
          skills =
            (if list_ex (\<lambda>word. str_in word outcome_lower)
                  [''problem'', ''solve'', ''solution'']
             then skills @
               [\<lparr>skill_name = Some (extract_main_skill outcome ''Problem Solving''),
                 description = Some (take 100 outcome),
                 category = Some ''Cognitive'',
                 skill_type = Some ''Problem-Solving'',
                 blooms_level = Some blooms_level,
                 keyword_list = Some (extract_keywords outcome_lower
                   [''problem'', ''solve'', ''solution'']),
                 module = Some module_code\<rparr>]
             else skills);
          skills =
            (if list_ex (\<lambda>word. str_in word outcome_lower)
                  [''data'', ''information'', ''database'']
             then skills @
               [\<lparr>skill_name = Some (extract_main_skill outcome ''Data Management''),
                 description = Some (take 100 outcome),
                 category = Some ''Technical'',
                 skill_type = Some ''Data Science'',
                 blooms_level = Some blooms_level,
                 keyword_list = Some (extract_keywords outcome_lower
                   [''data'', ''information'', ''analysis'']),
                 module = Some module_code\<rparr>]
             else skills)
      in if skills = []
         then skills @
           [\<lparr>skill_name = Some (take 50 outcome),
             description = Some (take 100 outcome),
             category = Some ''General'',
             skill_type = Some ''General Competency'',
             blooms_level = Some blooms_level,
             keyword_list = Some [],
             module = Some module_code\<rparr>]
         else skills)"

section \<open>Dictionaries\<close>

text \<open>\<^verbatim>\<open>d.get(key, default)\<close> on a key that may be absent.\<close>

definition dict_get :: "'a option \<Rightarrow> 'a \<Rightarrow> 'a" where
  "dict_get v dflt = (case v of None \<Rightarrow> dflt | Some x \<Rightarrow> x)"

text \<open>
  A \<^verbatim>\<open>defaultdict\<close> keeps its keys in the order of their insertion, so it is an
  association list. \<open>dd_modify factory key f\<close> is one statement that reads
  \<^verbatim>\<open>d[key]\<close> and mutates the value it gets by \<open>f\<close>: a key that is absent is first
  inserted at the end with the value \<open>factory\<close>.
\<close>

fun dd_modify :: "'v \<Rightarrow> 'k \<Rightarrow> ('v \<Rightarrow> 'v) \<Rightarrow> ('k \<times> 'v) list \<Rightarrow> ('k \<times> 'v) list" where
  "dd_modify factory key f [] = [(key, f factory)]"
| "dd_modify factory key f ((k, v) # items) =
     (if k = key then (k, f v) # items else (k, v) # dd_modify factory key f items)"

section \<open>Consolidator\<close>

datatype py_error = ValueError

text \<open>A statement that raises ends the function: the error of the first part is the
  result, and the rest runs on its value otherwise.\<close>

definition py_bind :: "py_error + 'a \<Rightarrow> ('a \<Rightarrow> py_error + 'b) \<Rightarrow> py_error + 'b" where
  "py_bind r f = (case r of Inl e \<Rightarrow> Inl e | Inr v \<Rightarrow> f v)"

definition blooms_hierarchy :: "string \<rightharpoonup> int" where
  "blooms_hierarchy =
     [''Remember'' \<mapsto> 1, ''Understand'' \<mapsto> 2, ''Apply'' \<mapsto> 3, ''Analyze'' \<mapsto> 4,
      ''Evaluate'' \<mapsto> 5, ''Create'' \<mapsto> 6]"

text \<open>\<^verbatim>\<open>max\<close> of an empty sequence raises \<^verbatim>\<open>ValueError\<close>.\<close>

definition determine_proficiency_levels :: "string set \<Rightarrow> py_error + string list" where
  "determine_proficiency_levels blooms_levels =
     (if blooms_levels = {} then Inl ValueError
      else
        (let max_level = Max ((\<lambda>b. dict_get (blooms_hierarchy b) 3) ` blooms_levels)
         in if max_level \<le> 2 then Inr [''Beginner'']
            else if max_level \<le> 4 then Inr [''Beginner'', ''Intermediate'']
            else Inr [''Beginner'', ''Intermediate'', ''Advanced'']))"

text \<open>The value that the \<^verbatim>\<open>defaultdict\<close> \<open>skill_map\<close> holds for a name.\<close>

record skill_data =
  modules :: "string set"
  blooms :: "string list"
  descriptions :: "string list"

definition skill_data_factory :: skill_data where
  "skill_data_factory = \<lparr>modules = {}, blooms = [], descriptions = []\<rparr>"

record consolidated =
  name :: string
  proficiency_levels :: "string list"
  appears_in_modules :: "string list"
  bloom_levels :: "string list"

definition consolidate_similar_skills :: "skill list \<Rightarrow> py_error + consolidated list" where
  "consolidate_similar_skills skills =
     (let skill_map =
            foldl (\<lambda>skill_map skill.
                let name = dict_get (skill_name skill) ''Unknown'';
                    module = dict_get (skill.module skill) ''Unknown'';
                    blms = dict_get (blooms_level skill) ''Unknown'';
                    desc = dict_get (skill.description skill) [];
                    skill_map = dd_modify skill_data_factory name
                      (\<lambda>data. data\<lparr>modules := insert module (modules data)\<rparr>) skill_map;
                    skill_map = dd_modify skill_data_factory name
                      (\<lambda>data. data\<lparr>blooms := blooms data @ [blms]\<rparr>) skill_map;
                    skill_map = dd_modify skill_data_factory name
                      (\<lambda>data. data\<lparr>descriptions := descriptions data @ [desc]\<rparr>) skill_map
                in skill_map)
              [] skills
      in foldl (\<lambda>acc (name, data).
             py_bind acc (\<lambda>consolidated.
               let blooms_set = set (blooms data)
               in py_bind (determine_proficiency_levels blooms_set) (\<lambda>proficiency.
                    Inr (consolidated @
                      [\<lparr>name = name,
                        proficiency_levels = proficiency,
                        appears_in_modules = sorted_list_of_set (modules data),
                        bloom_levels = sorted_list_of_set blooms_set\<rparr>]))))
           (Inr []) skill_map)"

section \<open>Taxonomy builder\<close>

record sub_category =
  name :: string
  description :: string
  skills :: "consolidated list"

record domain =
  name :: string
  description :: string
  sub_categories :: "sub_category list"

record taxonomy =
  domains :: "domain list"

definition build_taxonomy_structure :: "skill list \<Rightarrow> py_error + taxonomy" where
  "build_taxonomy_structure all_skills =
     (let taxonomy_tree =
            foldl (\<lambda>taxonomy_tree skill.
                let category = dict_get (category skill) ''General'';
                    skill_type = dict_get (skill_type skill) ''General''
                in dd_modify [] category
                     (\<lambda>skill_types. dd_modify [] skill_type (\<lambda>skills. skills @ [skill]) skill_types)
                     taxonomy_tree)
              [] all_skills;
          domains =
            foldl (\<lambda>acc (category, skill_types).
                py_bind acc (\<lambda>domains.
                  let sub_categories =
                        foldl (\<lambda>acc (skill_type, skills).
                            py_bind acc (\<lambda>sub_categories.
                              py_bind (consolidate_similar_skills skills) (\<lambda>unique_skills.
                                Inr (sub_categories @
                                  [\<lparr>sub_category.name = skill_type,
                                    description =
                                      skill_type @ '' skills in '' @ category @ '' category'',
                                    skills = unique_skills\<rparr>]))))
                          (Inr []) skill_types
                  in py_bind sub_categories (\<lambda>sub_categories.
                       Inr (domains @
                         [\<lparr>domain.name = category,
                           description = category @ '' competencies'',
                           sub_categories = sub_categories\<rparr>]))))
              (Inr []) taxonomy_tree
      in py_bind domains (\<lambda>domains. Inr \<lparr>domains = domains\<rparr>))"

section \<open>Extractor\<close>

text \<open>A module is a dictionary as well; an enriched module is a copy of it with the
  key \<^verbatim>\<open>extracted_skills\<close> added.\<close>

record module_dict =
  code :: "string option"
  title :: "string option"
  level :: "int option"
  learning_outcomes :: "string list option"

record enriched_module = module_dict +
  extracted_skills :: "skill list"

record analysis =
  modules :: "enriched_module list"
  all_skills :: "skill list"
  total_modules :: nat
  total_skills :: nat

definition analyze_learning_outcomes_direct :: "module_dict list \<Rightarrow> analysis" where
  "analyze_learning_outcomes_direct mods =
     (let (all_extracted_skills, enriched_modules) =
            foldl (\<lambda>(all_extracted_skills, enriched_modules) module.
                let code = dict_get (code module) ''Unknown'';
                    title = dict_get (title module) ''Unknown'';
                    level = dict_get (level module) 0;
                    outcomes = dict_get (learning_outcomes module) []
                in if outcomes = [] then (all_extracted_skills, enriched_modules)
                   else
                     (let (module_skills, all_extracted_skills) =
                            foldl (\<lambda>(module_skills, all_extracted_skills) outcome.
                                let skills = extract_skills_from_outcome outcome level code
                                in (module_skills @ skills, all_extracted_skills @ skills))
                              ([], all_extracted_skills) outcomes;
                          module_copy =
                            module_dict.extend module
                              (enriched_module.fields module_skills)
                      in (all_extracted_skills, enriched_modules @ [module_copy])))
              ([], []) mods
      in \<lparr>modules = enriched_modules,
          all_skills = all_extracted_skills,
          total_modules = length enriched_modules,
          total_skills = length all_extracted_skills\<rparr>)"

section \<open>Grouping in first-seen order\<close>

text \<open>The distinct elements of a sequence, each at the place of its first occurrence.\<close>

primrec first_seen :: "'a list \<Rightarrow> 'a list" where
  "first_seen [] = []"
| "first_seen (x # xs) = x # filter (\<lambda>y. y \<noteq> x) (first_seen xs)"

text \<open>The keys of \<open>xs\<close> in first-seen order, each with the fold of \<open>step\<close> over the
  elements that have this key, in their order, from the value \<open>d\<close>.\<close>

definition grouped :: "('x \<Rightarrow> 'k) \<Rightarrow> ('x \<Rightarrow> 'v \<Rightarrow> 'v) \<Rightarrow> 'v \<Rightarrow> 'x list \<Rightarrow> ('k \<times> 'v) list" where
  "grouped key step d xs =
     map (\<lambda>k. (k, foldl (\<lambda>a x. step x a) d (filter (\<lambda>x. key x = k) xs)))
       (first_seen (map key xs))"

section \<open>The consolidator as a group-by\<close>

text \<open>What the consolidator reads from a skill record, with the defaults of the source.\<close>

definition name_key :: "skill \<Rightarrow> string" where
  "name_key s = dict_get (skill_name s) ''Unknown''"

definition module_key :: "skill \<Rightarrow> string" where
  "module_key s = dict_get (skill.module s) ''Unknown''"

definition blooms_key :: "skill \<Rightarrow> string" where
  "blooms_key s = dict_get (blooms_level s) ''Unknown''"

text \<open>The rank that \<open>determine_proficiency_levels\<close> gives a Bloom level.\<close>

definition bloom_rank :: "string \<Rightarrow> int" where
  "bloom_rank b = dict_get (blooms_hierarchy b) 3"

definition bloom_names :: "string list" where
  "bloom_names =
     [''Remember'', ''Understand'', ''Apply'', ''Analyze'', ''Evaluate'', ''Create'']"

text \<open>The rank of a Bloom level when the proficiency is derived: the six names have the
  ranks 1 to 6 and every other string has the rank 3.\<close>

definition rank_or_3 :: "string \<Rightarrow> int" where
  "rank_or_3 b =
     (if b = ''Remember'' then 1
      else if b = ''Understand'' then 2
      else if b = ''Apply'' then 3
      else if b = ''Analyze'' then 4
      else if b = ''Evaluate'' then 5
      else if b = ''Create'' then 6
      else 3)"

definition proficiency_for_rank :: "int \<Rightarrow> string list" where
  "proficiency_for_rank m =
     (if m \<le> 2 then [''Beginner'']
      else if m \<le> 4 then [''Beginner'', ''Intermediate'']
      else [''Beginner'', ''Intermediate'', ''Advanced''])"

text \<open>The records of \<open>ss\<close> that have the name \<open>n\<close>.\<close>

definition group_of :: "string \<Rightarrow> skill list \<Rightarrow> skill list" where
  "group_of n ss = filter (\<lambda>s. name_key s = n) ss"

definition consolidated_group :: "string \<Rightarrow> skill list \<Rightarrow> consolidated" where
  "consolidated_group n g =
     \<lparr>consolidated.name = n,
      proficiency_levels =
        proficiency_for_rank (Max (set (map (\<lambda>s. bloom_rank (blooms_key s)) g))),
      appears_in_modules = sorted_list_of_set (set (map module_key g)),
      bloom_levels = sorted_list_of_set (set (map blooms_key g))\<rparr>"

definition consolidate_by_name :: "skill list \<Rightarrow> consolidated list" where
  "consolidate_by_name ss =
     map (\<lambda>n. consolidated_group n (group_of n ss)) (first_seen (map name_key ss))"

text \<open>The three statements of the first loop of the consolidator, as one update.\<close>

definition add_skill :: "skill \<Rightarrow> skill_data \<Rightarrow> skill_data" where
  "add_skill s data =
     data\<lparr>skill_data.modules := insert (module_key s) (skill_data.modules data),
          blooms := blooms data @ [blooms_key s],
          descriptions := descriptions data @ [dict_get (skill.description s) []]\<rparr>"

section \<open>The taxonomy as a two-level group-by\<close>

text \<open>What the taxonomy builder reads from a skill record, with the defaults of the source.\<close>

definition category_key :: "skill \<Rightarrow> string" where
  "category_key s = dict_get (category s) ''General''"

definition type_key :: "skill \<Rightarrow> string" where
  "type_key s = dict_get (skill_type s) ''General''"

text \<open>The records of \<open>ss\<close> with the category \<open>c\<close> and the skill type \<open>t\<close>, in their
  order.\<close>

definition bucket :: "string \<Rightarrow> string \<Rightarrow> skill list \<Rightarrow> skill list" where
  "bucket c t ss = filter (\<lambda>s. type_key s = t) (filter (\<lambda>s. category_key s = c) ss)"

definition sub_category_of :: "string \<Rightarrow> string \<Rightarrow> skill list \<Rightarrow> sub_category" where
  "sub_category_of c t ss =
     \<lparr>sub_category.name = t,
      description = t @ '' skills in '' @ c @ '' category'',
      skills = consolidate_by_name (bucket c t ss)\<rparr>"

definition domain_of :: "string \<Rightarrow> skill list \<Rightarrow> domain" where
  "domain_of c ss =
     \<lparr>domain.name = c,
      description = c @ '' competencies'',
      sub_categories =
        map (\<lambda>t. sub_category_of c t ss)
          (first_seen (map type_key (filter (\<lambda>s. category_key s = c) ss)))\<rparr>"

definition taxonomy_by_category :: "skill list \<Rightarrow> taxonomy" where
  "taxonomy_by_category ss =
     \<lparr>domains = map (\<lambda>c. domain_of c ss) (first_seen (map category_key ss))\<rparr>"

section \<open>The extractor as a filter\<close>

definition outcomes_of :: "module_dict \<Rightarrow> string list" where
  "outcomes_of m = dict_get (learning_outcomes m) []"

text \<open>The records that the classifier gives for the outcomes of a module, in their order.\<close>

definition module_skills_of :: "module_dict \<Rightarrow> skill list" where
  "module_skills_of m =
     concat (map (\<lambda>outcome. extract_skills_from_outcome outcome
                    (dict_get (level m) 0) (dict_get (code m) ''Unknown''))
               (outcomes_of m))"

text \<open>The modules that have at least one outcome.\<close>

definition retained :: "module_dict list \<Rightarrow> module_dict list" where
  "retained mods = filter (\<lambda>m. outcomes_of m \<noteq> []) mods"

definition enrich :: "module_dict \<Rightarrow> enriched_module" where
  "enrich m = module_dict.extend m (enriched_module.fields (module_skills_of m))"

section \<open>The rules of the classifier\<close>

text \<open>Every keyword that triggers one of the eight rules of the classifier.\<close>

definition rule_keywords :: "string list" where
  "rule_keywords =
     [''program'', ''code'', ''compile'', ''debug'', ''algorithm'', ''data structure'',
      ''function'', ''method'', ''procedure''] @
     [''design'', ''develop'', ''create'', ''build'', ''construct''] @
     [''understand'', ''comprehend'', ''aware'', ''familiar'', ''describe'', ''explain''] @
     [''test'', ''debug'', ''evaluate'', ''analyze'', ''assess''] @
     [''architecture'', ''organization'', ''system'', ''structure''] @
     [''logic'', ''proof'', ''mathematical'', ''formal'', ''automata''] @
     [''problem'', ''solve'', ''solution''] @
     [''data'', ''information'', ''database'']"

text \<open>The six Bloom levels in the order in which they are tested, each with its verbs.\<close>

definition blooms_priority :: "(string \<times> string list) list" where
  "blooms_priority =
     [(''Remember'',
        [''define'', ''list'', ''name'', ''identify'', ''recall'', ''recognize'']),
      (''Understand'',
        [''understand'', ''comprehend'', ''explain'', ''describe'', ''summarize'',
         ''interpret'', ''classify'']),
      (''Apply'',
        [''apply'', ''use'', ''solve'', ''implement'', ''execute'', ''carry out'', ''write'',
         ''run'']),
      (''Analyze'',
        [''analyze'', ''examine'', ''compare'', ''contrast'', ''differentiate'', ''organize'',
         ''test'', ''debug'']),
      (''Evaluate'',
        [''evaluate'', ''assess'', ''judge'', ''critique'', ''justify'', ''argue'', ''defend'']),
      (''Create'',
        [''create'', ''design'', ''develop'', ''construct'', ''build'', ''formulate'',
         ''generate'', ''plan''])]"

text \<open>The first level of the list one of whose verbs occurs in the text, and \<open>Apply\<close> when
  there is none.\<close>

fun first_matching_level :: "(string \<times> string list) list \<Rightarrow> string \<Rightarrow> string" where
  "first_matching_level [] text = ''Apply''"
| "first_matching_level ((lvl, verbs) # rest) text =
     (if list_ex (\<lambda>verb. str_in verb text) verbs then lvl
      else first_matching_level rest text)"

definition remember_verbs :: "string list" where
  "remember_verbs = [''define'', ''list'', ''name'', ''identify'', ''recall'', ''recognize'']"

definition create_verbs :: "string list" where
  "create_verbs =
     [''create'', ''design'', ''develop'', ''construct'', ''build'', ''formulate'',
      ''generate'', ''plan'']"

section \<open>Properties of the strings\<close>

lemma starts_with_iff: "starts_with w t \<longleftrightarrow> (\<exists>s. t = w @ s)"
  by (induction w t rule: starts_with.induct) auto

lemma str_in_iff: "str_in w t \<longleftrightarrow> (\<exists>p s. t = p @ w @ s)"
proof (induction t)
  case Nil
  show ?case by auto
next
  case (Cons c cs)
  show ?case
  proof
    assume "str_in w (c # cs)"
    then consider "starts_with w (c # cs)" | "str_in w cs" by auto
    then show "\<exists>p s. c # cs = p @ w @ s"
    proof cases
      case 1
      then obtain s where "c # cs = w @ s" by (auto simp: starts_with_iff)
      then have "c # cs = [] @ w @ s" by simp
      then show ?thesis by blast
    next
      case 2
      then obtain p s where "cs = p @ w @ s" using Cons.IH by auto
      then have "c # cs = (c # p) @ w @ s" by simp
      then show ?thesis by blast
    qed
  next
    assume "\<exists>p s. c # cs = p @ w @ s"
    then obtain p s where eq: "c # cs = p @ w @ s" by blast
    show "str_in w (c # cs)"
    proof (cases p)
      case Nil
      with eq have "starts_with w (c # cs)" by (auto simp: starts_with_iff)
      then show ?thesis by simp
    next
      case (Cons a p')
      with eq have "cs = p' @ w @ s" by simp
      then have "str_in w cs" using Cons.IH by blast
      then show ?thesis by simp
    qed
  qed
qed

lemma split_not_Nil: "split s sep \<noteq> []"
  by (induction s) (auto split: list.splits)

lemma hd_split: "hd (split s sep) = takeWhile (\<lambda>c. c \<noteq> sep) s"
  by (induction s) (auto split: list.splits simp: split_not_Nil)

lemma takeWhile_twice:
  "takeWhile P (takeWhile Q xs) = takeWhile (\<lambda>x. Q x \<and> P x) xs"
  by (induction xs) auto

lemma first_part_eq:
  "hd (split (hd (split s CHR '','')) CHR '';'') =
     takeWhile (\<lambda>c. c \<noteq> CHR '','' \<and> c \<noteq> CHR '';'') s"
  by (simp only: hd_split takeWhile_twice)

lemma rev_dropWhile_takeWhile:
  "xs = rev (dropWhile P (rev xs)) @ rev (takeWhile P (rev xs))"
proof -
  have "rev (takeWhile P (rev xs) @ dropWhile P (rev xs)) = xs"
    by (simp only: takeWhile_dropWhile_id rev_rev_ident)
  then show ?thesis
    by (simp only: rev_append)
qed

lemma strip_decompose:
  "\<exists>l r. s = l @ strip s @ r \<and> (\<forall>c \<in> set l. isspace c) \<and> (\<forall>c \<in> set r. isspace c)"
proof -
  let ?d = "dropWhile isspace s"
  have "s = takeWhile isspace s @ ?d"
    by simp
  also have "?d = strip s @ rev (takeWhile isspace (rev ?d))"
    unfolding strip_def by (rule rev_dropWhile_takeWhile)
  finally have "s = takeWhile isspace s @ strip s @ rev (takeWhile isspace (rev ?d))" .
  moreover have "\<forall>c \<in> set (takeWhile isspace s). isspace c"
    by (auto dest: set_takeWhileD)
  moreover have "\<forall>c \<in> set (rev (takeWhile isspace (rev ?d))). isspace c"
    by (auto dest: set_takeWhileD)
  ultimately show ?thesis by blast
qed

lemma strip_ends:
  assumes "strip s \<noteq> []"
  shows "\<not> isspace (hd (strip s)) \<and> \<not> isspace (last (strip s))"
proof -
  let ?d = "dropWhile isspace s"
  let ?e = "dropWhile isspace (rev ?d)"
  from assms have e: "?e \<noteq> []"
    by (simp add: strip_def)
  then have "\<not> isspace (hd ?e)"
    by (rule hd_dropWhile)
  with e have l: "\<not> isspace (last (strip s))"
    by (simp add: strip_def last_rev)
  from e have d: "?d \<noteq> []"
    by (metis dropWhile.simps(1) rev.simps(1))
  then have h: "\<not> isspace (hd ?d)"
    by (rule hd_dropWhile)
  have "?d = strip s @ rev (takeWhile isspace (rev ?d))"
    unfolding strip_def by (rule rev_dropWhile_takeWhile)
  with assms have "hd ?d = hd (strip s)"
    by (metis hd_append2)
  with h l show ?thesis by simp
qed

text \<open>A verb that occurs in an outcome as given occurs in its lower-cased text, since
  the verbs are in lower case.\<close>

lemma str_in_lower: "str_in w t \<Longrightarrow> str_in (lower w) (lower t)"
proof -
  assume "str_in w t"
  then obtain p s where "t = p @ w @ s"
    by (auto simp: str_in_iff)
  then have "lower t = lower p @ lower w @ lower s"
    by (simp add: lower_def)
  then show ?thesis
    unfolding str_in_iff by blast
qed

lemma verbs_lower_case:
  "list_all (\<lambda>verb. lower verb = verb) (concat (map snd blooms_priority))"
  by code_simp

section \<open>Properties of the grouping\<close>

lemma set_first_seen: "set (first_seen xs) = set xs"
  by (induction xs) auto

lemma distinct_first_seen: "distinct (first_seen xs)"
  by (induction xs) auto

lemma first_seen_snoc:
  "first_seen (xs @ [x]) = (if x \<in> set xs then first_seen xs else first_seen xs @ [x])"
  by (induction xs) auto

lemma dd_modify_twice:
  "dd_modify d k f (dd_modify d k g m) = dd_modify d k (\<lambda>v. f (g v)) m"
  by (induction m) auto

lemma dd_modify_map_present:
  "distinct ks \<Longrightarrow> k \<in> set ks \<Longrightarrow>
   dd_modify d k f (map (\<lambda>k'. (k', g k')) ks) =
   map (\<lambda>k'. (k', if k' = k then f (g k') else g k')) ks"
  by (induction ks) auto

lemma dd_modify_map_absent:
  "k \<notin> set ks \<Longrightarrow>
   dd_modify d k f (map (\<lambda>k'. (k', g k')) ks) = map (\<lambda>k'. (k', g k')) ks @ [(k, f d)]"
  by (induction ks) auto

lemma grouped_snoc:
  "dd_modify d (key x) (step x) (grouped key step d xs) = grouped key step d (xs @ [x])"
proof (cases "key x \<in> set (map key xs)")
  case True
  then show ?thesis
    unfolding grouped_def
    by (simp add: dd_modify_map_present distinct_first_seen set_first_seen first_seen_snoc)
next
  case False
  then have "filter (\<lambda>y. key y = key x) xs = []"
    by (induction xs) auto
  with False show ?thesis
    unfolding grouped_def
    by (auto simp add: dd_modify_map_absent set_first_seen first_seen_snoc)
qed

lemma foldl_dd_modify_grouped:
  "foldl (\<lambda>m x. dd_modify d (key x) (step x) m) [] xs = grouped key step d xs"
proof (induction xs rule: rev_induct)
  case Nil
  show ?case by (simp add: grouped_def)
next
  case (snoc x xs)
  then show ?case by (simp add: grouped_snoc)
qed

lemma py_bind_Inr: "py_bind (Inr v) f = f v"
  by (simp add: py_bind_def)

lemma foldl_py_bind_append:
  assumes "\<And>acc x. body x acc = Inr (acc @ [g x])"
  shows "foldl (\<lambda>acc x. py_bind acc (body x)) (Inr acc0) xs = Inr (acc0 @ map g xs)"
  by (induction xs arbitrary: acc0) (simp_all add: py_bind_Inr assms)

lemma foldl_py_bind_map:
  assumes "\<And>acc x. body x acc = Inr (acc @ [g x])"
  shows "foldl (\<lambda>acc x. py_bind acc (body x)) (Inr []) xs = Inr (map g xs)"
  using foldl_py_bind_append [of body g "[]" xs, OF assms] by simp

section \<open>Properties of the consolidator\<close>

lemma foldl_add_skill:
  "foldl (\<lambda>a x. add_skill x a) acc g =
     acc\<lparr>skill_data.modules := skill_data.modules acc \<union> set (map module_key g),
         blooms := blooms acc @ map blooms_key g,
         descriptions := descriptions acc @ map (\<lambda>s. dict_get (skill.description s) []) g\<rparr>"
  by (induction g arbitrary: acc) (auto simp: add_skill_def)

lemma skill_map_grouped:
  "foldl (\<lambda>skill_map skill.
      let name = dict_get (skill_name skill) ''Unknown'';
          module = dict_get (skill.module skill) ''Unknown'';
          blms = dict_get (blooms_level skill) ''Unknown'';
          desc = dict_get (skill.description skill) [];
          skill_map = dd_modify skill_data_factory name
            (\<lambda>data. data\<lparr>skill_data.modules := insert module (skill_data.modules data)\<rparr>)
            skill_map;
          skill_map = dd_modify skill_data_factory name
            (\<lambda>data. data\<lparr>blooms := blooms data @ [blms]\<rparr>) skill_map;
          skill_map = dd_modify skill_data_factory name
            (\<lambda>data. data\<lparr>descriptions := descriptions data @ [desc]\<rparr>) skill_map
      in skill_map) [] ss
   = grouped name_key add_skill skill_data_factory ss"
proof -
  have "(\<lambda>skill_map skill.
      let name = dict_get (skill_name skill) ''Unknown'';
          module = dict_get (skill.module skill) ''Unknown'';
          blms = dict_get (blooms_level skill) ''Unknown'';
          desc = dict_get (skill.description skill) [];
          skill_map = dd_modify skill_data_factory name
            (\<lambda>data. data\<lparr>skill_data.modules := insert module (skill_data.modules data)\<rparr>)
            skill_map;
          skill_map = dd_modify skill_data_factory name
            (\<lambda>data. data\<lparr>blooms := blooms data @ [blms]\<rparr>) skill_map;
          skill_map = dd_modify skill_data_factory name
            (\<lambda>data. data\<lparr>descriptions := descriptions data @ [desc]\<rparr>) skill_map
      in skill_map)
    = (\<lambda>m x. dd_modify skill_data_factory (name_key x) (add_skill x) m)"
    by (intro ext)
      (simp add: Let_def dd_modify_twice name_key_def module_key_def blooms_key_def
        add_skill_def [abs_def])
  then show ?thesis
    by (simp only: foldl_dd_modify_grouped)
qed

lemma determine_proficiency_levels_set:
  "g \<noteq> [] \<Longrightarrow>
   determine_proficiency_levels (blooms_key ` set g) =
     Inr (proficiency_for_rank (Max ((\<lambda>s. bloom_rank (blooms_key s)) ` set g)))"
  by (simp add: determine_proficiency_levels_def proficiency_for_rank_def bloom_rank_def
      Let_def image_image)

lemma emit_loop:
  assumes "\<forall>n\<in>set ns. G n \<noteq> []"
  shows "foldl (\<lambda>acc (name, data).
       py_bind acc (\<lambda>consolidated.
         let blooms_set = set (blooms data)
         in py_bind (determine_proficiency_levels blooms_set) (\<lambda>proficiency.
              Inr (consolidated @
                [\<lparr>consolidated.name = name,
                  proficiency_levels = proficiency,
                  appears_in_modules = sorted_list_of_set (skill_data.modules data),
                  bloom_levels = sorted_list_of_set blooms_set\<rparr>]))))
     (Inr acc0) (map (\<lambda>n. (n, foldl (\<lambda>a x. add_skill x a) skill_data_factory (G n))) ns)
   = Inr (acc0 @ map (\<lambda>n. consolidated_group n (G n)) ns)"
  using assms
proof (induction ns arbitrary: acc0)
  case Nil
  show ?case by simp
next
  case (Cons n ns)
  then have ne: "G n \<noteq> []" by simp
  from Cons show ?case
    by (simp add: foldl_add_skill skill_data_factory_def py_bind_def consolidated_group_def
        determine_proficiency_levels_set [OF ne])
qed

lemma consolidate_similar_skills_eq:
  "consolidate_similar_skills ss = Inr (consolidate_by_name ss)"
proof -
  have ne: "\<forall>n\<in>set (first_seen (map name_key ss)). filter (\<lambda>s. name_key s = n) ss \<noteq> []"
    by (auto simp: set_first_seen filter_empty_conv)
  have "consolidate_similar_skills ss =
      foldl (\<lambda>acc (name, data).
       py_bind acc (\<lambda>consolidated.
         let blooms_set = set (blooms data)
         in py_bind (determine_proficiency_levels blooms_set) (\<lambda>proficiency.
              Inr (consolidated @
                [\<lparr>consolidated.name = name,
                  proficiency_levels = proficiency,
                  appears_in_modules = sorted_list_of_set (skill_data.modules data),
                  bloom_levels = sorted_list_of_set blooms_set\<rparr>]))))
       (Inr []) (grouped name_key add_skill skill_data_factory ss)"
    by (simp only: consolidate_similar_skills_def skill_map_grouped
        Let_def [where s = "grouped name_key add_skill skill_data_factory ss"])
  also have "\<dots> = Inr (consolidate_by_name ss)"
    unfolding grouped_def consolidate_by_name_def group_of_def
    using emit_loop [OF ne, of "[]"] by simp
  finally show ?thesis .
qed

lemma bloom_rank_unrecognised: "b \<notin> set bloom_names \<Longrightarrow> bloom_rank b = 3"
  by (simp add: bloom_rank_def blooms_hierarchy_def dict_get_def bloom_names_def)

lemma bloom_rank_eq: "bloom_rank b = rank_or_3 b"
  by (simp add: bloom_rank_def blooms_hierarchy_def dict_get_def rank_or_3_def)

lemma group_of_nonempty: "n \<in> set (map name_key ss) \<Longrightarrow> group_of n ss \<noteq> []"
  by (auto simp: group_of_def filter_empty_conv)

section \<open>Properties of the taxonomy builder\<close>

lemma foldl_snoc_id: "foldl (\<lambda>a x. a @ [x]) acc g = acc @ g"
  by (induction g arbitrary: acc) auto

lemma taxonomy_tree_grouped:
  "foldl (\<lambda>taxonomy_tree skill.
      let category = dict_get (category skill) ''General'';
          skill_type = dict_get (skill_type skill) ''General''
      in dd_modify [] category
           (\<lambda>skill_types. dd_modify [] skill_type (\<lambda>skills. skills @ [skill]) skill_types)
           taxonomy_tree)
    [] ss
   = map (\<lambda>c. (c, map (\<lambda>t. (t, bucket c t ss))
                    (first_seen (map type_key (filter (\<lambda>s. category_key s = c) ss)))))
       (first_seen (map category_key ss))"
proof -
  have "foldl (\<lambda>taxonomy_tree skill.
      let category = dict_get (category skill) ''General'';
          skill_type = dict_get (skill_type skill) ''General''
      in dd_modify [] category
           (\<lambda>skill_types. dd_modify [] skill_type (\<lambda>skills. skills @ [skill]) skill_types)
           taxonomy_tree)
    [] ss
    = foldl (\<lambda>m x. dd_modify [] (category_key x)
          ((\<lambda>s skill_types. dd_modify [] (type_key s) ((\<lambda>s l. l @ [s]) s) skill_types) x) m) [] ss"
    by (simp add: Let_def category_key_def type_key_def)
  also have "\<dots> = grouped category_key
       (\<lambda>s skill_types. dd_modify [] (type_key s) ((\<lambda>s l. l @ [s]) s) skill_types) [] ss"
    by (rule foldl_dd_modify_grouped)
  also have "\<dots> = map (\<lambda>c. (c, map (\<lambda>t. (t, bucket c t ss))
                    (first_seen (map type_key (filter (\<lambda>s. category_key s = c) ss)))))
       (first_seen (map category_key ss))"
    unfolding grouped_def [of category_key]
    by (simp only: foldl_dd_modify_grouped) (simp add: grouped_def foldl_snoc_id bucket_def)
  finally show ?thesis .
qed

lemma sub_categories_loop:
  "foldl (\<lambda>acc (skill_type, skills).
      py_bind acc (\<lambda>sub_categories.
        py_bind (consolidate_similar_skills skills) (\<lambda>unique_skills.
          Inr (sub_categories @
            [\<lparr>sub_category.name = skill_type,
              description = skill_type @ '' skills in '' @ c @ '' category'',
              skills = unique_skills\<rparr>]))))
    (Inr []) items
   = Inr (map (\<lambda>x. \<lparr>sub_category.name = fst x,
              description = fst x @ '' skills in '' @ c @ '' category'',
              skills = consolidate_by_name (snd x)\<rparr>) items)"
  apply (simp only: case_prod_unfold)
  apply (rule foldl_py_bind_map)
  apply (simp only: consolidate_similar_skills_eq py_bind_Inr)
  done

lemma domains_loop:
  "foldl (\<lambda>acc (category, skill_types).
      py_bind acc (\<lambda>domains.
        let sub_categories =
              foldl (\<lambda>acc (skill_type, skills).
                  py_bind acc (\<lambda>sub_categories.
                    py_bind (consolidate_similar_skills skills) (\<lambda>unique_skills.
                      Inr (sub_categories @
                        [\<lparr>sub_category.name = skill_type,
                          description =
                            skill_type @ '' skills in '' @ category @ '' category'',
                          skills = unique_skills\<rparr>]))))
                (Inr []) skill_types
        in py_bind sub_categories (\<lambda>sub_categories.
             Inr (domains @
               [\<lparr>domain.name = category,
                 description = category @ '' competencies'',
                 sub_categories = sub_categories\<rparr>]))))
    (Inr []) tree
   = Inr (map (\<lambda>y. \<lparr>domain.name = fst y,
              description = fst y @ '' competencies'',
              sub_categories =
                map (\<lambda>x. \<lparr>sub_category.name = fst x,
                     description = fst x @ '' skills in '' @ fst y @ '' category'',
                     skills = consolidate_by_name (snd x)\<rparr>) (snd y)\<rparr>) tree)"
  apply (simp only: sub_categories_loop Let_def py_bind_Inr)
  apply (simp only: case_prod_unfold)
  apply (rule foldl_py_bind_map)
  apply (rule refl)
  done

lemma build_taxonomy_structure_eq:
  "build_taxonomy_structure ss = Inr (taxonomy_by_category ss)"
  unfolding build_taxonomy_structure_def
  apply (simp only: taxonomy_tree_grouped)
  apply (simp only: domains_loop)
  apply (simp only: Let_def py_bind_Inr)
  apply (simp add: taxonomy_by_category_def domain_of_def sub_category_of_def comp_def)
  done

section \<open>Properties of the extractor\<close>

lemma outcomes_loop:
  "foldl (\<lambda>(module_skills, all_extracted_skills) outcome.
       (module_skills @ E outcome, all_extracted_skills @ E outcome))
     (ms0, all0) os
   = (ms0 @ concat (map E os), all0 @ concat (map E os))"
  by (induction os arbitrary: ms0 all0) (simp_all add: Let_def)

lemma modules_loop:
  "foldl (\<lambda>(all_extracted_skills, enriched_modules) module.
        let code = dict_get (code module) ''Unknown'';
            title = dict_get (title module) ''Unknown'';
            level = dict_get (level module) 0;
            outcomes = dict_get (learning_outcomes module) []
        in if outcomes = [] then (all_extracted_skills, enriched_modules)
           else
             (let (module_skills, all_extracted_skills) =
                    foldl (\<lambda>(module_skills, all_extracted_skills) outcome.
                        let skills = extract_skills_from_outcome outcome level code
                        in (module_skills @ skills, all_extracted_skills @ skills))
                      ([], all_extracted_skills) outcomes;
                  module_copy =
                    module_dict.extend module
                      (enriched_module.fields module_skills)
              in (all_extracted_skills, enriched_modules @ [module_copy])))
      (all0, en0) mods
   = (all0 @ concat (map module_skills_of (retained mods)), en0 @ map enrich (retained mods))"
proof -
  have step: "(\<lambda>(all_extracted_skills, enriched_modules) module.
        let code = dict_get (code module) ''Unknown'';
            title = dict_get (title module) ''Unknown'';
            level = dict_get (level module) 0;
            outcomes = dict_get (learning_outcomes module) []
        in if outcomes = [] then (all_extracted_skills, enriched_modules)
           else
             (let (module_skills, all_extracted_skills) =
                    foldl (\<lambda>(module_skills, all_extracted_skills) outcome.
                        let skills = extract_skills_from_outcome outcome level code
                        in (module_skills @ skills, all_extracted_skills @ skills))
                      ([], all_extracted_skills) outcomes;
                  module_copy =
                    module_dict.extend module
                      (enriched_module.fields module_skills)
              in (all_extracted_skills, enriched_modules @ [module_copy])))
     = (\<lambda>acc m. if outcomes_of m = [] then acc
                else (fst acc @ module_skills_of m, snd acc @ [enrich m]))"
    by (intro ext)
      (simp add: outcomes_loop Let_def outcomes_of_def module_skills_of_def enrich_def
        split: prod.splits)
  have "foldl (\<lambda>acc m. if outcomes_of m = [] then acc
                else (fst acc @ module_skills_of m, snd acc @ [enrich m])) (all0, en0) mods
    = (all0 @ concat (map module_skills_of (retained mods)), en0 @ map enrich (retained mods))"
    by (induction mods arbitrary: all0 en0) (simp_all add: retained_def)
  then show ?thesis
    by (simp only: step)
qed

lemma analyze_learning_outcomes_direct_eq:
  "analyze_learning_outcomes_direct mods =
     \<lparr>modules = map enrich (retained mods),
      all_skills = concat (map module_skills_of (retained mods)),
      total_modules = length (retained mods),
      total_skills = length (concat (map module_skills_of (retained mods)))\<rparr>"
  unfolding analyze_learning_outcomes_direct_def
  by (simp only: modules_loop) simp

lemma truncate_enrich: "module_dict.truncate (enrich m) = m"
  by (simp add: enrich_def module_dict.truncate_def module_dict.extend_def)

lemma extracted_skills_enrich: "extracted_skills (enrich m) = module_skills_of m"
  by (simp add: enrich_def module_dict.defs enriched_module.defs)

lemma length_module_skills_of:
  "length (module_skills_of m) =
     sum_list (map (\<lambda>outcome. length (extract_skills_from_outcome outcome
                    (dict_get (level m) 0) (dict_get (code m) ''Unknown'')))
               (outcomes_of m))"
  by (simp add: module_skills_of_def length_concat comp_def)

section \<open>Properties of the classifier\<close>

lemma Let_allI: "(\<And>x. P (f x)) \<Longrightarrow> P (Let a f)"
  by simp

lemma Let_invI: "Q a \<Longrightarrow> (\<And>x. Q x \<Longrightarrow> P (f x)) \<Longrightarrow> P (Let a f)"
  by simp

lemma extract_skills_nonempty: "extract_skills_from_outcome outcome lvl mcode \<noteq> []"
  unfolding extract_skills_from_outcome_def
  by (intro Let_allI [where P = "\<lambda>z. z \<noteq> []"]) simp

lemma extract_skills_fallback:
  assumes "\<forall>word \<in> set rule_keywords. \<not> str_in word (lower outcome)"
  shows "extract_skills_from_outcome outcome lvl mcode =
       [\<lparr>skill_name = Some (take 50 outcome),
         description = Some (take 100 outcome),
         category = Some ''General'',
         skill_type = Some ''General Competency'',
         blooms_level = Some (determine_blooms_level (lower outcome)),
         keyword_list = Some [],
         module = Some mcode\<rparr>]"
proof -
  from assms have k: "\<And>word. word \<in> set rule_keywords \<Longrightarrow> str_in word (lower outcome) = False"
    by simp
  have r: "list_ex (\<lambda>word. str_in word (lower outcome)) ws = False"
    if "set ws \<subseteq> set rule_keywords" for ws
    using that k by (induction ws) auto
  have r1: "set [''program'', ''code'', ''compile'', ''debug'', ''algorithm'',
                   ''data structure'', ''function'', ''method'', ''procedure'']
               \<subseteq> set rule_keywords"
    and r2: "set [''design'', ''develop'', ''create'', ''build'', ''construct'']
               \<subseteq> set rule_keywords"
    and r3: "set [''understand'', ''comprehend'', ''aware'', ''familiar'', ''describe'',
                   ''explain''] \<subseteq> set rule_keywords"
    and r4: "set [''test'', ''debug'', ''evaluate'', ''analyze'', ''assess'']
               \<subseteq> set rule_keywords"
    and r5: "set [''architecture'', ''organization'', ''system'', ''structure'']
               \<subseteq> set rule_keywords"
    and r6: "set [''logic'', ''proof'', ''mathematical'', ''formal'', ''automata'']
               \<subseteq> set rule_keywords"
    and r7: "set [''problem'', ''solve'', ''solution''] \<subseteq> set rule_keywords"
    and r8: "set [''data'', ''information'', ''database''] \<subseteq> set rule_keywords"
    unfolding rule_keywords_def set_append by blast+
  show ?thesis
    unfolding extract_skills_from_outcome_def
    apply (simp only: Let_def [of "lower outcome"])
    apply (simp only: r [of "[''program'', ''code'', ''compile'', ''debug'', ''algorithm'',
                   ''data structure'', ''function'', ''method'', ''procedure'']", OF r1]
        r [of "[''design'', ''develop'', ''create'', ''build'', ''construct'']", OF r2]
        r [of "[''understand'', ''comprehend'', ''aware'', ''familiar'', ''describe'',
                   ''explain'']", OF r3]
        r [of "[''test'', ''debug'', ''evaluate'', ''analyze'', ''assess'']", OF r4]
        r [of "[''architecture'', ''organization'', ''system'', ''structure'']", OF r5]
        r [of "[''logic'', ''proof'', ''mathematical'', ''formal'', ''automata'']", OF r6]
        r [of "[''problem'', ''solve'', ''solution'']", OF r7]
        r [of "[''data'', ''information'', ''database'']", OF r8] if_False Let_def)
    apply simp
    done
qed

lemma extract_skills_blooms:
  "\<forall>s \<in> set (extract_skills_from_outcome outcome lvl mcode).
     blooms_level s = Some (determine_blooms_level (lower outcome))"
proof -
  define b where "b = determine_blooms_level (lower outcome)"
  have "\<forall>s \<in> set (extract_skills_from_outcome outcome lvl mcode). blooms_level s = Some b"
    unfolding extract_skills_from_outcome_def
    apply (simp only: Let_def [of "lower outcome"])
    apply (simp only: Let_def [of "[]"])
    apply (simp only: Let_def [of "determine_blooms_level (lower outcome)"])
    apply (fold b_def)
    apply (rule Let_invI [where Q = "\<lambda>sk. \<forall>s \<in> set sk. blooms_level s = Some b"
          and P = "\<lambda>sk. \<forall>s \<in> set sk. blooms_level s = Some b"], simp)+
    apply simp
    done
  then show ?thesis
    by (simp only: b_def)
qed

lemma determine_blooms_level_first:
  "determine_blooms_level text = first_matching_level blooms_priority text"
  unfolding determine_blooms_level_def blooms_priority_def
  by (simp only: first_matching_level.simps)

lemma remember_first:
  "list_ex (\<lambda>verb. str_in verb text) remember_verbs \<Longrightarrow>
   determine_blooms_level text = ''Remember''"
  unfolding determine_blooms_level_def remember_verbs_def
  by (simp only: if_True)

section \<open>Claims about the classifier\<close>

text \<open>
  C1. The classifier returns at least one record for every outcome. When the lower-cased
  outcome contains no keyword of the eight rules, it returns exactly one record, with the
  category \<open>General\<close>, the skill type \<open>General Competency\<close> and, as its name, the first
  50 characters of the outcome as given.
\<close>

theorem classifier_total_and_fallback:
  "extract_skills_from_outcome outcome lvl mcode \<noteq> [] \<and>
   ((\<forall>word \<in> set rule_keywords. \<not> str_in word (lower outcome)) \<longrightarrow>
     extract_skills_from_outcome outcome lvl mcode =
       [\<lparr>skill_name = Some (take 50 outcome),
         description = Some (take 100 outcome),
         category = Some ''General'',
         skill_type = Some ''General Competency'',
         blooms_level = Some (determine_blooms_level (lower outcome)),
         keyword_list = Some [],
         module = Some mcode\<rparr>])"
  using extract_skills_nonempty extract_skills_fallback by blast

theorem classifier_total_and_fallback_witness:
  "\<not> list_ex (\<lambda>word. str_in word (lower ''Work in Teams'')) rule_keywords \<and>
   extract_skills_from_outcome ''Work in Teams'' 1 ''COMP101'' =
       [\<lparr>skill_name = Some ''Work in Teams'',
         description = Some ''Work in Teams'',
         category = Some ''General'',
         skill_type = Some ''General Competency'',
         blooms_level = Some ''Apply'',
         keyword_list = Some [],
         module = Some ''COMP101''\<rparr>]"
proof -
  have h: "\<forall>word \<in> set rule_keywords. \<not> str_in word (lower ''Work in Teams'')"
    by code_simp
  have b: "determine_blooms_level (lower ''Work in Teams'') = ''Apply''"
    by code_simp
  from classifier_total_and_fallback [of "''Work in Teams''" 1 "''COMP101''"] h
  have "extract_skills_from_outcome ''Work in Teams'' 1 ''COMP101'' =
       [\<lparr>skill_name = Some (take 50 ''Work in Teams''),
         description = Some (take 100 ''Work in Teams''),
         category = Some ''General'',
         skill_type = Some ''General Competency'',
         blooms_level = Some (determine_blooms_level (lower ''Work in Teams'')),
         keyword_list = Some [],
         module = Some ''COMP101''\<rparr>]"
    by blast
  then have "extract_skills_from_outcome ''Work in Teams'' 1 ''COMP101'' =
       [\<lparr>skill_name = Some ''Work in Teams'',
         description = Some ''Work in Teams'',
         category = Some ''General'',
         skill_type = Some ''General Competency'',
         blooms_level = Some ''Apply'',
         keyword_list = Some [],
         module = Some ''COMP101''\<rparr>]"
    by (simp add: b)
  moreover from h have "\<not> list_ex (\<lambda>word. str_in word (lower ''Work in Teams'')) rule_keywords"
    by (simp only: list_ex_iff bex_simps)
  ultimately show ?thesis by simp
qed

text \<open>
  C2. The Bloom level of an outcome is computed once, from the lower-cased text, and every
  record of the outcome carries it. It is the first of Remember, Understand, Apply,
  Analyze, Evaluate, Create one of whose verbs occurs in the text, and Apply when no verb
  occurs. So an outcome that contains a Remember verb and a Create verb has the level
  Remember.
\<close>

theorem blooms_priority_order:
  "determine_blooms_level (lower outcome) = first_matching_level blooms_priority (lower outcome) \<and>
   map fst blooms_priority =
     [''Remember'', ''Understand'', ''Apply'', ''Analyze'', ''Evaluate'', ''Create''] \<and>
   (\<forall>s \<in> set (extract_skills_from_outcome outcome lvl mcode).
      blooms_level s = Some (determine_blooms_level (lower outcome))) \<and>
   (list_ex (\<lambda>verb. str_in verb (lower outcome)) remember_verbs \<and>
    list_ex (\<lambda>verb. str_in verb (lower outcome)) create_verbs \<longrightarrow>
      (\<forall>s \<in> set (extract_skills_from_outcome outcome lvl mcode).
         blooms_level s = Some ''Remember''))"
proof (intro conjI impI)
  show "determine_blooms_level (lower outcome) =
      first_matching_level blooms_priority (lower outcome)"
    by (rule determine_blooms_level_first)
  show "map fst blooms_priority =
     [''Remember'', ''Understand'', ''Apply'', ''Analyze'', ''Evaluate'', ''Create'']"
    by (simp add: blooms_priority_def)
  show "\<forall>s \<in> set (extract_skills_from_outcome outcome lvl mcode).
      blooms_level s = Some (determine_blooms_level (lower outcome))"
    by (rule extract_skills_blooms)
next
  assume "list_ex (\<lambda>verb. str_in verb (lower outcome)) remember_verbs \<and>
    list_ex (\<lambda>verb. str_in verb (lower outcome)) create_verbs"
  then have "determine_blooms_level (lower outcome) = ''Remember''"
    by (simp only: remember_first)
  with extract_skills_blooms [of outcome lvl mcode]
  show "\<forall>s \<in> set (extract_skills_from_outcome outcome lvl mcode).
         blooms_level s = Some ''Remember''"
    by simp
qed

theorem blooms_priority_order_witness:
  "list_ex (\<lambda>verb. str_in verb (lower ''Define and Design a test plan'')) remember_verbs \<and>
   list_ex (\<lambda>verb. str_in verb (lower ''Define and Design a test plan'')) create_verbs \<and>
   extract_skills_from_outcome ''Define and Design a test plan'' 2 ''COMP201'' \<noteq> [] \<and>
   list_all (\<lambda>s. blooms_level s = Some ''Remember'')
     (extract_skills_from_outcome ''Define and Design a test plan'' 2 ''COMP201'')"
proof -
  have r: "list_ex (\<lambda>verb. str_in verb (lower ''Define and Design a test plan'')) remember_verbs"
    by code_simp
  have c: "list_ex (\<lambda>verb. str_in verb (lower ''Define and Design a test plan'')) create_verbs"
    by code_simp
  have n: "extract_skills_from_outcome ''Define and Design a test plan'' 2 ''COMP201'' \<noteq> []"
    by (rule extract_skills_nonempty)
  from blooms_priority_order [of "''Define and Design a test plan''" 2 "''COMP201''"] r c
  have "\<forall>s \<in> set (extract_skills_from_outcome ''Define and Design a test plan'' 2 ''COMP201'').
      blooms_level s = Some ''Remember''"
    by blast
  then have "list_all (\<lambda>s. blooms_level s = Some ''Remember'')
     (extract_skills_from_outcome ''Define and Design a test plan'' 2 ''COMP201'')"
    by (simp only: list_all_iff)
  with r c n show ?thesis
    by (intro conjI)
qed

text \<open>
  C9. For the empty outcome the classifier returns one record: category \<open>General\<close>, skill
  type \<open>General Competency\<close>, empty name and description, Bloom level \<open>Apply\<close> and no
  keywords.
\<close>

theorem classifier_empty_outcome:
  "extract_skills_from_outcome [] lvl mcode =
     [\<lparr>skill_name = Some [],
       description = Some [],
       category = Some ''General'',
       skill_type = Some ''General Competency'',
       blooms_level = Some ''Apply'',
       keyword_list = Some [],
       module = Some mcode\<rparr>]"
proof -
  have h: "\<forall>word \<in> set rule_keywords. \<not> str_in word (lower [])"
    by (simp add: rule_keywords_def lower_def)
  have b: "determine_blooms_level (lower []) = ''Apply''"
    by (simp add: determine_blooms_level_def lower_def)
  show ?thesis
    by (simp add: extract_skills_fallback [OF h] b)
qed

text \<open>
  C7. The main skill name of an outcome: strip the white space at both ends; a stripped text
  of fewer than 60 characters is the name itself; otherwise the name is the text before the
  first comma or semicolon, whichever comes first, when this clause has fewer than 80
  characters, and otherwise the context label, \<open> - \<close>, the first 40 characters of the
  stripped text and \<open>...\<close>.
\<close>

theorem main_skill_name:
  "extract_main_skill outcome context =
     (let stripped = strip outcome;
          clause = takeWhile (\<lambda>c. c \<noteq> CHR '','' \<and> c \<noteq> CHR '';'') stripped
      in if length stripped < 60 then stripped
         else if length clause < 80 then clause
         else context @ '' - '' @ take 40 stripped @ ''...'')"
  unfolding extract_main_skill_def
  by (simp only: first_part_eq Let_def)

theorem main_skill_name_witness:
  "extract_main_skill
     ''  Design and implement software; test it, document it and present the result to a client  ''
     ''Programming'' = ''Design and implement software'' \<and>
   extract_main_skill
     ''Demonstrate a critical understanding of the theory and practice of distributed systems engineering, including replication''
     ''Systems & Architecture'' = ''Systems & Architecture - Demonstrate a critical understanding of ...''"
proof -
  have a: "(let stripped = strip ''  Design and implement software; test it, document it and present the result to a client  '';
          clause = takeWhile (\<lambda>c. c \<noteq> CHR '','' \<and> c \<noteq> CHR '';'') stripped
      in if length stripped < 60 then stripped
         else if length clause < 80 then clause
         else ''Programming'' @ '' - '' @ take 40 stripped @ ''...'') = ''Design and implement software''"
    by code_simp
  have b: "(let stripped = strip ''Demonstrate a critical understanding of the theory and practice of distributed systems engineering, including replication'';
          clause = takeWhile (\<lambda>c. c \<noteq> CHR '','' \<and> c \<noteq> CHR '';'') stripped
      in if length stripped < 60 then stripped
         else if length clause < 80 then clause
         else ''Systems & Architecture'' @ '' - '' @ take 40 stripped @ ''...'')
     = ''Systems & Architecture - Demonstrate a critical understanding of ...''"
    by code_simp
  show ?thesis
    by (simp only: main_skill_name a b simp_thms)
qed

section \<open>Claims about the consolidator\<close>

text \<open>
  C4. The consolidator groups the records by their \<open>skill_name\<close>, compared as strings
  (case matters), and returns one consolidated record for each distinct name, in the order
  in which the names first occur in the input. In each consolidated record
  \<open>appears_in_modules\<close> is sorted, has no duplicates and holds the module codes of the
  group; \<open>bloom_levels\<close> is sorted, has no duplicates and holds the Bloom levels of the
  group.
\<close>

theorem consolidator_groups_by_name:
  "consolidate_similar_skills ss = Inr (consolidate_by_name ss) \<and>
   map consolidated.name (consolidate_by_name ss) = first_seen (map name_key ss) \<and>
   distinct (map consolidated.name (consolidate_by_name ss)) \<and>
   (\<forall>c \<in> set (consolidate_by_name ss).
      sorted (appears_in_modules c) \<and> distinct (appears_in_modules c) \<and>
      set (appears_in_modules c) = set (map module_key (group_of (consolidated.name c) ss)) \<and>
      sorted (bloom_levels c) \<and> distinct (bloom_levels c) \<and>
      set (bloom_levels c) = set (map blooms_key (group_of (consolidated.name c) ss)))"
  by (simp add: consolidate_similar_skills_eq)
    (simp add: consolidate_by_name_def consolidated_group_def comp_def distinct_first_seen)

theorem consolidator_groups_by_name_witness:
  "consolidate_similar_skills
     [\<lparr>skill_name = Some ''Sorting'', description = Some ''d1'', category = Some ''Technical'',
       skill_type = Some ''Programming'', blooms_level = Some ''Create'',
       keyword_list = Some [], module = Some ''COMP201''\<rparr>,
      \<lparr>skill_name = Some ''Proofs'', description = Some ''d2'', category = Some ''Cognitive'',
       skill_type = Some ''Comprehension'', blooms_level = Some ''Understand'',
       keyword_list = Some [], module = Some ''COMP101''\<rparr>,
      \<lparr>skill_name = Some ''Sorting'', description = Some ''d3'', category = Some ''Technical'',
       skill_type = Some ''Programming'', blooms_level = Some ''Apply'',
       keyword_list = Some [], module = Some ''COMP101''\<rparr>,
      \<lparr>skill_name = Some ''sorting'', description = Some ''d4'', category = Some ''Technical'',
       skill_type = Some ''Programming'', blooms_level = Some ''Apply'',
       keyword_list = Some [], module = Some ''COMP101''\<rparr>]
   = Inr
     [\<lparr>consolidated.name = ''Sorting'',
       proficiency_levels = [''Beginner'', ''Intermediate'', ''Advanced''],
       appears_in_modules = [''COMP101'', ''COMP201''],
       bloom_levels = [''Apply'', ''Create'']\<rparr>,
      \<lparr>consolidated.name = ''Proofs'',
       proficiency_levels = [''Beginner''],
       appears_in_modules = [''COMP101''],
       bloom_levels = [''Understand'']\<rparr>,
      \<lparr>consolidated.name = ''sorting'',
       proficiency_levels = [''Beginner'', ''Intermediate''],
       appears_in_modules = [''COMP101''],
       bloom_levels = [''Apply'']\<rparr>]"
proof -
  let ?ss = "[\<lparr>skill_name = Some ''Sorting'', description = Some ''d1'', category = Some ''Technical'',
       skill_type = Some ''Programming'', blooms_level = Some ''Create'',
       keyword_list = Some [], module = Some ''COMP201''\<rparr>,
      \<lparr>skill_name = Some ''Proofs'', description = Some ''d2'', category = Some ''Cognitive'',
       skill_type = Some ''Comprehension'', blooms_level = Some ''Understand'',
       keyword_list = Some [], module = Some ''COMP101''\<rparr>,
      \<lparr>skill_name = Some ''Sorting'', description = Some ''d3'', category = Some ''Technical'',
       skill_type = Some ''Programming'', blooms_level = Some ''Apply'',
       keyword_list = Some [], module = Some ''COMP101''\<rparr>,
      \<lparr>skill_name = Some ''sorting'', description = Some ''d4'', category = Some ''Technical'',
       skill_type = Some ''Programming'', blooms_level = Some ''Apply'',
       keyword_list = Some [], module = Some ''COMP101''\<rparr>]"
  have e: "consolidate_by_name ?ss =
     [\<lparr>consolidated.name = ''Sorting'',
       proficiency_levels = [''Beginner'', ''Intermediate'', ''Advanced''],
       appears_in_modules = [''COMP101'', ''COMP201''],
       bloom_levels = [''Apply'', ''Create'']\<rparr>,
      \<lparr>consolidated.name = ''Proofs'',
       proficiency_levels = [''Beginner''],
       appears_in_modules = [''COMP101''],
       bloom_levels = [''Understand'']\<rparr>,
      \<lparr>consolidated.name = ''sorting'',
       proficiency_levels = [''Beginner'', ''Intermediate''],
       appears_in_modules = [''COMP101''],
       bloom_levels = [''Apply'']\<rparr>]"
    by code_simp
  from consolidator_groups_by_name [of ?ss]
  have "consolidate_similar_skills ?ss = Inr (consolidate_by_name ?ss)"
    by (rule conjunct1)
  then show ?thesis
    by (simp only: e)
qed

text \<open>
  C3. The \<open>proficiency_levels\<close> of a consolidated record depend only on the maximum
  Bloom rank of its group, where Remember is 1, Understand 2, Apply 3, Analyze 4, Evaluate 5
  and Create 6: a maximum of at most 2 gives Beginner; otherwise a maximum of at most 4 gives
  Beginner and Intermediate; a maximum of 5 or more gives all three levels. A skill seen in
  COMP101 and COMP201 with the levels Apply and Analyze has Beginner and Intermediate and
  both module codes.
\<close>

theorem proficiency_from_max_rank:
  assumes "consolidate_similar_skills ss = Inr cs" and "c \<in> set cs"
  shows "(bloom_rank ''Remember'' = 1 \<and> bloom_rank ''Understand'' = 2 \<and>
          bloom_rank ''Apply'' = 3 \<and> bloom_rank ''Analyze'' = 4 \<and>
          bloom_rank ''Evaluate'' = 5 \<and> bloom_rank ''Create'' = 6) \<and>
         (let m = Max (set (map (\<lambda>s. bloom_rank (blooms_key s))
                              (group_of (consolidated.name c) ss)))
          in proficiency_levels c =
               (if m \<le> 2 then [''Beginner'']
                else if m \<le> 4 then [''Beginner'', ''Intermediate'']
                else [''Beginner'', ''Intermediate'', ''Advanced'']))"
proof
  show "bloom_rank ''Remember'' = 1 \<and> bloom_rank ''Understand'' = 2 \<and>
          bloom_rank ''Apply'' = 3 \<and> bloom_rank ''Analyze'' = 4 \<and>
          bloom_rank ''Evaluate'' = 5 \<and> bloom_rank ''Create'' = 6"
    by (simp add: bloom_rank_def blooms_hierarchy_def dict_get_def)
next
  from assms have "c \<in> set (consolidate_by_name ss)"
    by (simp add: consolidate_similar_skills_eq)
  then obtain n where "c = consolidated_group n (group_of n ss)"
    by (auto simp: consolidate_by_name_def)
  then show "let m = Max (set (map (\<lambda>s. bloom_rank (blooms_key s))
                              (group_of (consolidated.name c) ss)))
          in proficiency_levels c =
               (if m \<le> 2 then [''Beginner'']
                else if m \<le> 4 then [''Beginner'', ''Intermediate'']
                else [''Beginner'', ''Intermediate'', ''Advanced''])"
    by (simp add: consolidated_group_def proficiency_for_rank_def Let_def)
qed

theorem proficiency_from_max_rank_witness:
  "consolidate_similar_skills
     [\<lparr>skill_name = Some ''Programming'', description = Some ''Write programs'',
       category = Some ''Technical'', skill_type = Some ''Programming'',
       blooms_level = Some ''Apply'', keyword_list = Some [''program''],
       module = Some ''COMP201''\<rparr>,
      \<lparr>skill_name = Some ''Programming'', description = Some ''Debug programs'',
       category = Some ''Technical'', skill_type = Some ''Programming'',
       blooms_level = Some ''Analyze'', keyword_list = Some [''program''],
       module = Some ''COMP101''\<rparr>]
   = Inr [\<lparr>consolidated.name = ''Programming'',
           proficiency_levels = [''Beginner'', ''Intermediate''],
           appears_in_modules = [''COMP101'', ''COMP201''],
           bloom_levels = [''Analyze'', ''Apply'']\<rparr>] \<and>
   Max (set (map (\<lambda>s. bloom_rank (blooms_key s))
     (group_of ''Programming''
       [\<lparr>skill_name = Some ''Programming'', description = Some ''Write programs'',
         category = Some ''Technical'', skill_type = Some ''Programming'',
         blooms_level = Some ''Apply'', keyword_list = Some [''program''],
         module = Some ''COMP201''\<rparr>,
        \<lparr>skill_name = Some ''Programming'', description = Some ''Debug programs'',
         category = Some ''Technical'', skill_type = Some ''Programming'',
         blooms_level = Some ''Analyze'', keyword_list = Some [''program''],
         module = Some ''COMP101''\<rparr>]))) = 4"
proof -
  let ?ss = "[\<lparr>skill_name = Some ''Programming'', description = Some ''Write programs'',
       category = Some ''Technical'', skill_type = Some ''Programming'',
       blooms_level = Some ''Apply'', keyword_list = Some [''program''],
       module = Some ''COMP201''\<rparr>,
      \<lparr>skill_name = Some ''Programming'', description = Some ''Debug programs'',
       category = Some ''Technical'', skill_type = Some ''Programming'',
       blooms_level = Some ''Analyze'', keyword_list = Some [''program''],
       module = Some ''COMP101''\<rparr>]"
  let ?c = "\<lparr>consolidated.name = ''Programming'',
           proficiency_levels = [''Beginner'', ''Intermediate''],
           appears_in_modules = [''COMP101'', ''COMP201''],
           bloom_levels = [''Analyze'', ''Apply'']\<rparr>"
  have e: "consolidate_similar_skills ?ss = Inr [?c]"
    by code_simp
  have c: "?c \<in> set [?c]"
    by simp
  have m: "Max (set (map (\<lambda>s. bloom_rank (blooms_key s)) (group_of ''Programming'' ?ss))) = 4"
    by code_simp
  from proficiency_from_max_rank [OF e c] e m show ?thesis
    by (simp only: simp_thms)
qed

text \<open>
  C10. The consolidator never fails, also on records with missing keys: a record without
  \<open>skill_name\<close>, \<open>module\<close> or \<open>blooms_level\<close> counts with the value \<open>Unknown\<close> for
  each missing key, so a record without a name is in the group named \<open>Unknown\<close>. A Bloom
  level that is none of the six names has rank 3 when the proficiency is derived: the
  proficiency of every consolidated record comes from the maximum rank of its group, where
  each unrecognised level counts as 3. So a group whose Bloom levels are all unrecognised
  has the proficiency levels Beginner and Intermediate.
\<close>

theorem consolidator_total_with_defaults:
  "\<exists>cs. consolidate_similar_skills ss = Inr cs \<and>
     (\<forall>s \<in> set ss. \<exists>c \<in> set cs.
        consolidated.name c = dict_get (skill_name s) ''Unknown'' \<and>
        dict_get (skill.module s) ''Unknown'' \<in> set (appears_in_modules c) \<and>
        dict_get (blooms_level s) ''Unknown'' \<in> set (bloom_levels c)) \<and>
     (\<forall>b. b \<notin> set bloom_names \<longrightarrow> dict_get (blooms_hierarchy b) 3 = 3) \<and>
     (\<forall>c \<in> set cs.
        proficiency_levels c =
          (let m = Max (set (map (\<lambda>s. rank_or_3 (dict_get (blooms_level s) ''Unknown''))
                     (filter (\<lambda>s. dict_get (skill_name s) ''Unknown'' = consolidated.name c)
                        ss)))
           in if m \<le> 2 then [''Beginner'']
              else if m \<le> 4 then [''Beginner'', ''Intermediate'']
              else [''Beginner'', ''Intermediate'', ''Advanced''])) \<and>
     (\<forall>c \<in> set cs.
        (\<forall>s \<in> set ss. dict_get (skill_name s) ''Unknown'' = consolidated.name c \<longrightarrow>
           dict_get (blooms_level s) ''Unknown'' \<notin> set bloom_names) \<longrightarrow>
        proficiency_levels c = [''Beginner'', ''Intermediate''])"
proof (intro exI conjI ballI impI allI)
  show "consolidate_similar_skills ss = Inr (consolidate_by_name ss)"
    by (rule consolidate_similar_skills_eq)
next
  fix s assume s: "s \<in> set ss"
  let ?c = "consolidated_group (name_key s) (group_of (name_key s) ss)"
  from s have g: "s \<in> set (group_of (name_key s) ss)"
    by (simp add: group_of_def)
  from s have "?c \<in> set (consolidate_by_name ss)"
    by (simp add: consolidate_by_name_def set_first_seen)
  moreover have "consolidated.name ?c = dict_get (skill_name s) ''Unknown''"
    by (simp add: consolidated_group_def name_key_def)
  moreover from g have "dict_get (skill.module s) ''Unknown'' \<in> set (appears_in_modules ?c)"
    by (auto simp: consolidated_group_def module_key_def)
  moreover from g have "dict_get (blooms_level s) ''Unknown'' \<in> set (bloom_levels ?c)"
    by (auto simp: consolidated_group_def blooms_key_def)
  ultimately show "\<exists>c \<in> set (consolidate_by_name ss).
        consolidated.name c = dict_get (skill_name s) ''Unknown'' \<and>
        dict_get (skill.module s) ''Unknown'' \<in> set (appears_in_modules c) \<and>
        dict_get (blooms_level s) ''Unknown'' \<in> set (bloom_levels c)"
    by blast
next
  fix b :: string
  assume "b \<notin> set bloom_names"
  then show "dict_get (blooms_hierarchy b) 3 = 3"
    by (rule bloom_rank_unrecognised [unfolded bloom_rank_def])
next
  fix c
  assume "c \<in> set (consolidate_by_name ss)"
  then obtain n where ceq: "c = consolidated_group n (group_of n ss)"
    by (auto simp: consolidate_by_name_def)
  have nm: "consolidated.name c = n"
    by (simp add: ceq consolidated_group_def)
  have g: "filter (\<lambda>s. dict_get (skill_name s) ''Unknown'' = consolidated.name c) ss =
      group_of n ss"
    by (simp add: nm group_of_def name_key_def)
  have r: "(\<lambda>s. rank_or_3 (dict_get (blooms_level s) ''Unknown'')) =
      (\<lambda>s. bloom_rank (blooms_key s))"
    by (simp add: bloom_rank_eq blooms_key_def)
  show "proficiency_levels c =
          (let m = Max (set (map (\<lambda>s. rank_or_3 (dict_get (blooms_level s) ''Unknown''))
                     (filter (\<lambda>s. dict_get (skill_name s) ''Unknown'' = consolidated.name c)
                        ss)))
           in if m \<le> 2 then [''Beginner'']
              else if m \<le> 4 then [''Beginner'', ''Intermediate'']
              else [''Beginner'', ''Intermediate'', ''Advanced''])"
    unfolding g r
    by (simp add: ceq consolidated_group_def proficiency_for_rank_def Let_def)
next
  fix c
  assume c: "c \<in> set (consolidate_by_name ss)"
    and un: "\<forall>s \<in> set ss. dict_get (skill_name s) ''Unknown'' = consolidated.name c \<longrightarrow>
           dict_get (blooms_level s) ''Unknown'' \<notin> set bloom_names"
  from c obtain n where n: "n \<in> set (map name_key ss)"
    and ceq: "c = consolidated_group n (group_of n ss)"
    by (auto simp: consolidate_by_name_def set_first_seen)
  have nm: "consolidated.name c = n"
    by (simp add: ceq consolidated_group_def)
  have ne: "group_of n ss \<noteq> []"
    by (rule group_of_nonempty [OF n])
  have "\<forall>s \<in> set (group_of n ss). bloom_rank (blooms_key s) = 3"
  proof
    fix s assume "s \<in> set (group_of n ss)"
    then have "s \<in> set ss" and "name_key s = n"
      by (simp_all add: group_of_def)
    with un nm have "blooms_key s \<notin> set bloom_names"
      by (simp add: name_key_def blooms_key_def)
    then show "bloom_rank (blooms_key s) = 3"
      by (rule bloom_rank_unrecognised)
  qed
  with ne have "(\<lambda>s. bloom_rank (blooms_key s)) ` set (group_of n ss) = {3}"
    by (cases "group_of n ss") auto
  then have "Max (set (map (\<lambda>s. bloom_rank (blooms_key s)) (group_of n ss))) = 3"
    by simp
  then show "proficiency_levels c = [''Beginner'', ''Intermediate'']"
    by (simp add: ceq consolidated_group_def proficiency_for_rank_def)
qed

theorem consolidator_total_with_defaults_witness:
  "list_all (\<lambda>s. dict_get (skill_name s) ''Unknown'' = ''Unknown'' \<and>
                dict_get (blooms_level s) ''Unknown'' \<notin> set bloom_names)
       [\<lparr>skill_name = None, description = None, category = None, skill_type = None,
         blooms_level = None, keyword_list = None, module = None\<rparr>,
        \<lparr>skill_name = Some ''Unknown'', description = None, category = None,
         skill_type = None, blooms_level = Some ''Mastery'', keyword_list = None,
         module = Some ''COMP101''\<rparr>] \<and>
   consolidate_similar_skills
     [\<lparr>skill_name = None, description = None, category = None, skill_type = None,
       blooms_level = None, keyword_list = None, module = None\<rparr>,
      \<lparr>skill_name = Some ''Unknown'', description = None, category = None, skill_type = None,
       blooms_level = Some ''Mastery'', keyword_list = None, module = Some ''COMP101''\<rparr>]
   = Inr [\<lparr>consolidated.name = ''Unknown'',
           proficiency_levels = [''Beginner'', ''Intermediate''],
           appears_in_modules = [''COMP101'', ''Unknown''],
           bloom_levels = [''Mastery'', ''Unknown'']\<rparr>] \<and>
   consolidate_similar_skills
     [\<lparr>skill_name = Some ''Recursion'', description = None, category = None,
       skill_type = None, blooms_level = Some ''Mastery'', keyword_list = None,
       module = Some ''COMP101''\<rparr>,
      \<lparr>skill_name = Some ''Recursion'', description = None, category = None,
       skill_type = None, blooms_level = Some ''Remember'', keyword_list = None,
       module = Some ''COMP201''\<rparr>]
   = Inr [\<lparr>consolidated.name = ''Recursion'',
           proficiency_levels = [''Beginner'', ''Intermediate''],
           appears_in_modules = [''COMP101'', ''COMP201''],
           bloom_levels = [''Mastery'', ''Remember'']\<rparr>]"
proof -
  let ?mixed = "[\<lparr>skill_name = Some ''Recursion'', description = None, category = None,
       skill_type = None, blooms_level = Some ''Mastery'', keyword_list = None,
       module = Some ''COMP101''\<rparr>,
      \<lparr>skill_name = Some ''Recursion'', description = None, category = None,
       skill_type = None, blooms_level = Some ''Remember'', keyword_list = None,
       module = Some ''COMP201''\<rparr>]"
  have m: "consolidate_by_name ?mixed
   = [\<lparr>consolidated.name = ''Recursion'',
           proficiency_levels = [''Beginner'', ''Intermediate''],
           appears_in_modules = [''COMP101'', ''COMP201''],
           bloom_levels = [''Mastery'', ''Remember'']\<rparr>]"
    by code_simp
  from consolidator_total_with_defaults [of ?mixed]
  obtain ms where ms: "consolidate_similar_skills ?mixed = Inr ms"
    by blast
  then have "ms = consolidate_by_name ?mixed"
    by (simp only: consolidate_similar_skills_eq sum.inject)
  with ms m have mixed: "consolidate_similar_skills ?mixed
   = Inr [\<lparr>consolidated.name = ''Recursion'',
           proficiency_levels = [''Beginner'', ''Intermediate''],
           appears_in_modules = [''COMP101'', ''COMP201''],
           bloom_levels = [''Mastery'', ''Remember'']\<rparr>]"
    by (simp only:)
  let ?ss = "[\<lparr>skill_name = None, description = None, category = None, skill_type = None,
       blooms_level = None, keyword_list = None, module = None\<rparr>,
      \<lparr>skill_name = Some ''Unknown'', description = None, category = None, skill_type = None,
       blooms_level = Some ''Mastery'', keyword_list = None, module = Some ''COMP101''\<rparr>]"
  have h: "list_all (\<lambda>s. dict_get (skill_name s) ''Unknown'' = ''Unknown'' \<and>
                dict_get (blooms_level s) ''Unknown'' \<notin> set bloom_names) ?ss"
    by code_simp
  have e: "consolidate_by_name ?ss
   = [\<lparr>consolidated.name = ''Unknown'',
           proficiency_levels = [''Beginner'', ''Intermediate''],
           appears_in_modules = [''COMP101'', ''Unknown''],
           bloom_levels = [''Mastery'', ''Unknown'']\<rparr>]"
    by code_simp
  from consolidator_total_with_defaults [of ?ss]
  obtain cs where cs: "consolidate_similar_skills ?ss = Inr cs"
    by blast
  then have "cs = consolidate_by_name ?ss"
    by (simp only: consolidate_similar_skills_eq sum.inject)
  with cs e have "consolidate_similar_skills ?ss
   = Inr [\<lparr>consolidated.name = ''Unknown'',
           proficiency_levels = [''Beginner'', ''Intermediate''],
           appears_in_modules = [''COMP101'', ''Unknown''],
           bloom_levels = [''Mastery'', ''Unknown'']\<rparr>]"
    by (simp only:)
  with h mixed show ?thesis
    by (intro conjI)
qed

section \<open>Claims about the taxonomy builder\<close>

text \<open>
  C5. The taxonomy builder groups the skills by category and, inside each category, by
  skill type, both in the order of first occurrence in one pass over the input. The skills
  of a sub-category are what the consolidator returns for the records of this category and
  type. The description of a domain is its category followed by \<open>competencies\<close>, that of
  a sub-category is \<open>T skills in C category\<close> for the type \<open>T\<close> and the category \<open>C\<close>.
\<close>

theorem taxonomy_two_level_grouping:
  "build_taxonomy_structure ss =
     Inr \<lparr>domains =
       map (\<lambda>c.
           \<lparr>domain.name = c,
            description = c @ '' competencies'',
            sub_categories =
              map (\<lambda>t.
                  \<lparr>sub_category.name = t,
                   description = t @ '' skills in '' @ c @ '' category'',
                   skills = consolidate_by_name (bucket c t ss)\<rparr>)
                (first_seen (map type_key (filter (\<lambda>s. category_key s = c) ss)))\<rparr>)
         (first_seen (map category_key ss))\<rparr> \<and>
   consolidate_similar_skills (bucket c t ss) = Inr (consolidate_by_name (bucket c t ss))"
  by (simp only: build_taxonomy_structure_eq consolidate_similar_skills_eq
      taxonomy_by_category_def domain_of_def sub_category_of_def simp_thms)

theorem taxonomy_two_level_grouping_witness:
  "build_taxonomy_structure
     [\<lparr>skill_name = Some ''Proofs'', description = Some ''d1'', category = Some ''Cognitive'',
       skill_type = Some ''Comprehension'', blooms_level = Some ''Understand'',
       keyword_list = Some [], module = Some ''COMP101''\<rparr>,
      \<lparr>skill_name = Some ''Sorting'', description = Some ''d2'', category = Some ''Technical'',
       skill_type = Some ''Programming'', blooms_level = Some ''Apply'',
       keyword_list = Some [], module = Some ''COMP101''\<rparr>,
      \<lparr>skill_name = Some ''Models'', description = Some ''d3'', category = Some ''Cognitive'',
       skill_type = Some ''Problem-Solving'', blooms_level = Some ''Create'',
       keyword_list = Some [], module = Some ''COMP201''\<rparr>,
      \<lparr>skill_name = Some ''Proofs'', description = Some ''d4'', category = Some ''Cognitive'',
       skill_type = Some ''Comprehension'', blooms_level = Some ''Analyze'',
       keyword_list = Some [], module = Some ''COMP201''\<rparr>]
   = Inr \<lparr>domains =
       [\<lparr>domain.name = ''Cognitive'',
         description = ''Cognitive competencies'',
         sub_categories =
           [\<lparr>sub_category.name = ''Comprehension'',
             description = ''Comprehension skills in Cognitive category'',
             skills =
               [\<lparr>consolidated.name = ''Proofs'',
                 proficiency_levels = [''Beginner'', ''Intermediate''],
                 appears_in_modules = [''COMP101'', ''COMP201''],
                 bloom_levels = [''Analyze'', ''Understand'']\<rparr>]\<rparr>,
            \<lparr>sub_category.name = ''Problem-Solving'',
             description = ''Problem-Solving skills in Cognitive category'',
             skills =
               [\<lparr>consolidated.name = ''Models'',
                 proficiency_levels = [''Beginner'', ''Intermediate'', ''Advanced''],
                 appears_in_modules = [''COMP201''],
                 bloom_levels = [''Create'']\<rparr>]\<rparr>]\<rparr>,
        \<lparr>domain.name = ''Technical'',
         description = ''Technical competencies'',
         sub_categories =
           [\<lparr>sub_category.name = ''Programming'',
             description = ''Programming skills in Technical category'',
             skills =
               [\<lparr>consolidated.name = ''Sorting'',
                 proficiency_levels = [''Beginner'', ''Intermediate''],
                 appears_in_modules = [''COMP101''],
                 bloom_levels = [''Apply'']\<rparr>]\<rparr>]\<rparr>]\<rparr>"
  (is "build_taxonomy_structure ?ss = Inr ?t")
proof -
  from taxonomy_two_level_grouping [of ?ss]
  have "build_taxonomy_structure ?ss =
     Inr \<lparr>domains =
       map (\<lambda>c.
           \<lparr>domain.name = c,
            description = c @ '' competencies'',
            sub_categories =
              map (\<lambda>t.
                  \<lparr>sub_category.name = t,
                   description = t @ '' skills in '' @ c @ '' category'',
                   skills = consolidate_by_name (bucket c t ?ss)\<rparr>)
                (first_seen (map type_key (filter (\<lambda>s. category_key s = c) ?ss)))\<rparr>)
         (first_seen (map category_key ?ss))\<rparr>"
    by (rule conjunct1)
  also have "\<dots> = Inr ?t"
    by code_simp
  finally show ?thesis .
qed

section \<open>Claims about the extractor\<close>

text \<open>
  C6. The extractor leaves out of \<open>modules\<close> every module whose sequence of outcomes is
  empty or absent, and such a module adds no skill record. \<open>total_modules\<close> is the number
  of modules kept; \<open>total_skills\<close> is the length of \<open>all_skills\<close> and the sum, over the
  modules kept and their outcomes in order, of the number of records that the classifier
  returns for the outcome.
\<close>

theorem extractor_drops_empty_modules:
  "map module_dict.truncate (modules (analyze_learning_outcomes_direct mods)) =
     filter (\<lambda>m. dict_get (learning_outcomes m) [] \<noteq> []) mods \<and>
   map extracted_skills (modules (analyze_learning_outcomes_direct mods)) =
     map module_skills_of (filter (\<lambda>m. dict_get (learning_outcomes m) [] \<noteq> []) mods) \<and>
   all_skills (analyze_learning_outcomes_direct mods) =
     concat (map module_skills_of
       (filter (\<lambda>m. dict_get (learning_outcomes m) [] \<noteq> []) mods)) \<and>
   total_modules (analyze_learning_outcomes_direct mods) =
     length (filter (\<lambda>m. dict_get (learning_outcomes m) [] \<noteq> []) mods) \<and>
   total_skills (analyze_learning_outcomes_direct mods) =
     length (all_skills (analyze_learning_outcomes_direct mods)) \<and>
   total_skills (analyze_learning_outcomes_direct mods) =
     sum_list (map (\<lambda>m. sum_list (map (\<lambda>outcome.
         length (extract_skills_from_outcome outcome
                   (dict_get (level m) 0) (dict_get (code m) ''Unknown'')))
         (dict_get (learning_outcomes m) [])))
       (filter (\<lambda>m. dict_get (learning_outcomes m) [] \<noteq> []) mods))"
proof -
  have r: "filter (\<lambda>m. dict_get (learning_outcomes m) [] \<noteq> []) mods = retained mods"
    by (simp add: retained_def outcomes_of_def)
  show ?thesis
    unfolding r
    by (simp add: analyze_learning_outcomes_direct_eq truncate_enrich comp_def length_concat
        length_module_skills_of extracted_skills_enrich)
      (simp add: outcomes_of_def)
qed

theorem extractor_drops_empty_modules_witness:
  "filter (\<lambda>m. dict_get (learning_outcomes m) [] \<noteq> [])
     [\<lparr>code = Some ''COMP100'', title = Some ''Induction week'', level = Some 1,
       learning_outcomes = Some []\<rparr>,
      \<lparr>code = Some ''COMP101'', title = Some ''Team project'', level = Some 1,
       learning_outcomes = Some [''Work in Teams'']\<rparr>,
      \<lparr>code = Some ''COMP102'', title = None, level = None, learning_outcomes = None\<rparr>]
   = [\<lparr>code = Some ''COMP101'', title = Some ''Team project'', level = Some 1,
       learning_outcomes = Some [''Work in Teams'']\<rparr>] \<and>
   total_modules (analyze_learning_outcomes_direct
     [\<lparr>code = Some ''COMP100'', title = Some ''Induction week'', level = Some 1,
       learning_outcomes = Some []\<rparr>,
      \<lparr>code = Some ''COMP101'', title = Some ''Team project'', level = Some 1,
       learning_outcomes = Some [''Work in Teams'']\<rparr>,
      \<lparr>code = Some ''COMP102'', title = None, level = None, learning_outcomes = None\<rparr>])
   = 1"
  (is "filter ?P ?mods = ?kept \<and> _")
proof -
  have f: "filter ?P ?mods = ?kept"
    by code_simp
  from extractor_drops_empty_modules [of ?mods]
  have "total_modules (analyze_learning_outcomes_direct ?mods) = length (filter ?P ?mods)"
    by blast
  with f show ?thesis
    by simp
qed

end
